theory Spec2Isabelle
  imports Main
begin

section \<open>Host values and objects\<close>

text \<open>
  The extension entry point \<^verbatim>\<open>extension_node.ts\<close> is glue code over the editor's
  plugin interface. The model keeps every piece of state the file reads or writes in one
  record, threads it through each function, and appends every call the file makes to a
  collaborator (editor interface, language client, worker, connection manager) to a
  trace, oldest call first. Collaborators whose code lives in other files are opaque:
  a call to one of them is a trace entry. Where a property depends on what such a
  function returns or registers (the fetch functions, \<^verbatim>\<open>setupSubscriptions\<close>), the
  function is a parameter.
\<close>

text \<open>Configuration values as JavaScript sees them. Arrays and objects are \<open>JObject\<close>;
  numbers are integers, since the code only asks whether a value is a non-empty string.\<close>

datatype jsval = JUndefined | JNull | JBool bool | JNumber int | JString string | JObject

fun truthy :: "jsval \<Rightarrow> bool" where
  "truthy JUndefined = False"
| "truthy JNull = False"
| "truthy (JBool b) = b"
| "truthy (JNumber n) = (n \<noteq> 0)"
| "truthy (JString str) = (str \<noteq> [])"
| "truthy JObject = True"

fun typeof :: "jsval \<Rightarrow> string" where
  "typeof JUndefined = ''undefined''"
| "typeof JNull = ''object''"
| "typeof (JBool b) = ''boolean''"
| "typeof (JNumber n) = ''number''"
| "typeof (JString str) = ''string''"
| "typeof JObject = ''object''"

text \<open>
  One section of the workspace configuration, as returned by
  \<^verbatim>\<open>vscode.workspace.getConfiguration(section)\<close>: settings by key.
  \<^verbatim>\<open>.get(key)\<close> is \<^verbatim>\<open>undefined\<close> for a missing key.
\<close>

type_synonym WorkspaceConfiguration = "(string \<times> jsval) list"

definition config_get :: "WorkspaceConfiguration \<Rightarrow> string \<Rightarrow> jsval" where
  "config_get c k = (case map_of c k of None \<Rightarrow> JUndefined | Some v \<Rightarrow> v)"

text \<open>The extension context is identified by the extension's install path.\<close>

datatype ExtensionContext = ExtensionContext string

fun asAbsolutePath :: "ExtensionContext \<Rightarrow> string \<Rightarrow> string" where
  "asAbsolutePath (ExtensionContext root) rel = root @ ''/'' @ rel"

datatype ConnectionsProvider = ConnectionsProvider ExtensionContext

text \<open>What a command name is bound to: \<^verbatim>\<open>editConnectionsCommand\<close>, or a function that
  another module registers, known here by a name only.\<close>

datatype command = editConnectionsCommand | otherCommand string

record ConfigurationChangeEvent =
  affectsConfiguration :: "string \<Rightarrow> bool"

text \<open>\<^verbatim>\<open>FetchFileEvent\<close>, \<^verbatim>\<open>FetchBinaryFileEvent\<close> and \<^verbatim>\<open>FetchCellDataEvent\<close>: the handlers read
  only the \<^verbatim>\<open>uri\<close> field.\<close>

record FetchEvent =
  uri :: string

text \<open>Messages to the worker: \<^verbatim>\<open>{type: 'config', config}\<close> and \<^verbatim>\<open>{type: 'exit'}\<close>.\<close>

datatype message = ConfigMessage WorkspaceConfiguration | ExitMessage

fun message_type :: "message \<Rightarrow> string" where
  "message_type (ConfigMessage c) = ''config''"
| "message_type ExitMessage = ''exit''"

text \<open>A worker connection is an object: its identity is its index in the store of
  worker outboxes, so a newly constructed one is distinct from every earlier one.\<close>

datatype WorkerConnection = WorkerConnection nat ExtensionContext

fun worker_id :: "WorkerConnection \<Rightarrow> nat" where
  "worker_id (WorkerConnection i ctx) = i"

fun worker_context :: "WorkerConnection \<Rightarrow> ExtensionContext" where
  "worker_context (WorkerConnection i ctx) = ctx"

datatype TransportKind = ipc

record NodeModule =
  module_path :: string
  transport :: TransportKind
  execArgv :: "string list"

record ServerOptions =
  run :: NodeModule
  debug :: NodeModule

record LanguageClientOptions =
  documentSelector :: "string list"
  configurationSection :: string
  fileEvents :: string

text \<open>The three request handlers \<^verbatim>\<open>setupLanguageServer\<close> registers are closures; each is
  named after the function it forwards to.\<close>

datatype handler = fetchFile_handler | fetchBinaryFile_handler | fetchCellData_handler

record LanguageClient =
  client_id :: string
  client_name :: string
  serverOptions :: ServerOptions
  clientOptions :: LanguageClientOptions
  requestHandlers :: "string \<rightharpoonup> handler"

datatype disposable =
    TreeDataProviderRegistration string ConnectionsProvider
  | CommandRegistration string command
  | ConfigurationListenerRegistration ConnectionsProvider
  | OtherRegistration string

datatype action =
    NewVSCodeURLReader
  | SetupSubscriptions ExtensionContext
  | NewConnectionsProvider ExtensionContext
  | SetHomeUri
  | RegisterTreeDataProvider string ConnectionsProvider
  | RegisterCommand string command
  | GetConfiguration string
  | OnDidChangeConfiguration ConnectionsProvider
  | CreateFileSystemWatcher string
  | NewLanguageClient string string ServerOptions LanguageClientOptions
  | ClientStart
  | ClientOnReady
  | ClientStop
  | OnRequest string
  | ConsoleInfo string string
  | NewWorkerConnection WorkerConnection
  | SetWorker WorkerConnection
  | WorkerSend WorkerConnection message
  | OnConfigurationUpdated
  | Refresh ConnectionsProvider

text \<open>
  An \<^verbatim>\<open>async\<close> function runs synchronously up to its first \<^verbatim>\<open>await\<close> and is then
  suspended; the rest of its body is a continuation that the event loop runs once the
  awaited promise is settled. The file has three such points.
\<close>

datatype continuation =
    K_setupLanguageServer
  | K_listener ConnectionsProvider ConfigurationChangeEvent
  | K_deactivate

datatype outcome = Resolved | Rejected

datatype error = TypeError | Rejection

record state =
  client :: "LanguageClient option"
  worker :: "WorkerConnection option"
  outboxes :: "message list list"
  env :: "string \<rightharpoonup> string"
  workspace :: "string \<Rightarrow> WorkspaceConfiguration"
  subscriptions :: "disposable list"
  commands :: "(string \<times> command) list"
  listeners :: "ConnectionsProvider list"
  pending :: "continuation list"
  unhandled :: "error list"
  trace :: "action list"

definition emit :: "action \<Rightarrow> state \<Rightarrow> state" where
  "emit a s = s\<lparr>trace := trace s @ [a]\<rparr>"

section \<open>Cloud-shell environment propagation\<close>

text \<open>\<^verbatim>\<open>process.env[k] = v\<close>: the environment holds C strings, so what is stored, and read
  back, is the part of \<open>v\<close> before its first NUL character.\<close>

definition env_value :: "string \<Rightarrow> string" where
  "env_value v = takeWhile (\<lambda>c. c \<noteq> CHR 0x00) v"

definition process_env_set :: "string \<Rightarrow> string \<Rightarrow> (string \<rightharpoonup> string) \<Rightarrow> (string \<rightharpoonup> string)" where
  "process_env_set k v e = e(k \<mapsto> env_value v)"

definition cloudshellEnv :: "state \<Rightarrow> state" where
  "cloudshellEnv s =
     (let s1 = emit (GetConfiguration ''cloudcode'') s;
          cloudShellProject = config_get (workspace s ''cloudcode'') ''cloudshell.project''
      in if truthy cloudShellProject \<and> typeof cloudShellProject = ''string''
         then (case cloudShellProject of
                 JString p \<Rightarrow>
                   s1\<lparr>env := process_env_set ''GOOGLE_CLOUD_QUOTA_PROJECT'' p
                               (process_env_set ''GOOGLE_CLOUD_PROJECT'' p
                                  (process_env_set ''DEVSHELL_PROJECT_ID'' p (env s1)))\<rparr>
               | _ \<Rightarrow> s1)
         else s1)"

section \<open>The worker\<close>

text \<open>Modelled from the spec: \<^verbatim>\<open>getWorker\<close> is imported from the worker module, a separate
  file. It is taken to read one module-level variable, absent until the first
  \<^verbatim>\<open>setWorker\<close>, as the test \<^verbatim>\<open>if (worker)\<close> in \<^verbatim>\<open>deactivate\<close> presupposes.\<close>

definition getWorker :: "state \<Rightarrow> WorkerConnection option" where
  "getWorker s = worker s"

text \<open>Modelled from the spec: \<^verbatim>\<open>setWorker\<close>, from the same module, is taken to store its
  argument in that variable.\<close>

definition setWorker :: "WorkerConnection \<Rightarrow> state \<Rightarrow> state" where
  "setWorker w s = emit (SetWorker w) (s\<lparr>worker := Some w\<rparr>)"

text \<open>\<^verbatim>\<open>new WorkerConnection(context)\<close>: a new object with nothing sent to it yet.\<close>

definition new_WorkerConnection :: "ExtensionContext \<Rightarrow> state \<Rightarrow> WorkerConnection \<times> state" where
  "new_WorkerConnection context s =
     (let w = WorkerConnection (length (outboxes s)) context
      in (w, emit (NewWorkerConnection w) (s\<lparr>outboxes := outboxes s @ [[]]\<rparr>)))"

text \<open>\<^verbatim>\<open>worker.send(m)\<close>: the message is appended to the worker's outbox. Every worker
  is built by \<open>new_WorkerConnection\<close>, so its index is in range; for an index out of
  range the list update changes nothing.\<close>

definition send :: "WorkerConnection \<Rightarrow> message \<Rightarrow> state \<Rightarrow> state" where
  "send w m s =
     emit (WorkerSend w m)
       (s\<lparr>outboxes := (outboxes s)[worker_id w := outboxes s ! worker_id w @ [m]]\<rparr>)"

definition outbox :: "WorkerConnection \<Rightarrow> state \<Rightarrow> message list" where
  "outbox w s = (if worker_id w < length (outboxes s) then outboxes s ! worker_id w else [])"

text \<open>\<^verbatim>\<open>getWorker().send(...)\<close>: the property access on an absent worker throws before
  the argument is evaluated.\<close>

definition sendWorkerConfig :: "state \<Rightarrow> error + state" where
  "sendWorkerConfig s =
     (case getWorker s of
        None \<Rightarrow> Inl TypeError
      | Some w \<Rightarrow>
          (let s1 = emit (GetConfiguration ''malloy'') s
           in Inr (send w (ConfigMessage (workspace s1 ''malloy'')) s1)))"

definition setupWorker :: "ExtensionContext \<Rightarrow> state \<Rightarrow> error + state" where
  "setupWorker context s =
     (case new_WorkerConnection context s of
        (w, s1) \<Rightarrow> sendWorkerConfig (setWorker w s1))"

section \<open>The language client\<close>

definition new_LanguageClient ::
  "string \<Rightarrow> string \<Rightarrow> ServerOptions \<Rightarrow> LanguageClientOptions \<Rightarrow> LanguageClient" where
  "new_LanguageClient i n so co =
     \<lparr>client_id = i, client_name = n, serverOptions = so, clientOptions = co,
      requestHandlers = Map.empty\<rparr>"

text \<open>\<^verbatim>\<open>client.onRequest(method, handler)\<close> on the module variable \<^verbatim>\<open>client\<close>.\<close>

definition onRequest :: "string \<Rightarrow> handler \<Rightarrow> state \<Rightarrow> error + state" where
  "onRequest method h s =
     (case client s of
        None \<Rightarrow> Inl TypeError
      | Some c \<Rightarrow>
          Inr (emit (OnRequest method)
                 (s\<lparr>client := Some (c\<lparr>requestHandlers := (requestHandlers c)(method \<mapsto> h)\<rparr>)\<rparr>)))"

definition and_then :: "error + state \<Rightarrow> (state \<Rightarrow> error + state) \<Rightarrow> error + state" where
  "and_then r f = (case r of Inl e \<Rightarrow> Inl e | Inr s \<Rightarrow> f s)"

text \<open>A rejected \<^verbatim>\<open>async\<close> function whose promise nobody awaits.\<close>

definition reject :: "error \<Rightarrow> state \<Rightarrow> state" where
  "reject e s = s\<lparr>unhandled := unhandled s @ [e]\<rparr>"

text \<open>\<^verbatim>\<open>setupLanguageServer\<close> up to \<^verbatim>\<open>await client.onReady()\<close>.\<close>

definition setupLanguageServer :: "ExtensionContext \<Rightarrow> state \<Rightarrow> state" where
  "setupLanguageServer context s =
     (let serverModule = asAbsolutePath context ''dist/server_node.js'';
          debugOptions = [''--nolazy'', ''--inspect=6009'', ''--preserve-symlinks'',
                          ''--enable-source-maps''];
          serverOptions =
            \<lparr>run = \<lparr>module_path = serverModule, transport = ipc, execArgv = []\<rparr>,
             debug = \<lparr>module_path = serverModule, transport = ipc, execArgv = debugOptions\<rparr>\<rparr>;
          s1 = emit (CreateFileSystemWatcher ''**/.clientrc'') s;
          clientOptions =
            \<lparr>documentSelector = [''malloy''], configurationSection = ''malloy'',
             fileEvents = ''**/.clientrc''\<rparr>;
          s2 = emit (NewLanguageClient ''malloy'' ''Malloy Language Server'' serverOptions
                       clientOptions)
                 (s1\<lparr>client := Some (new_LanguageClient ''malloy'' ''Malloy Language Server''
                                        serverOptions clientOptions)\<rparr>);
          s3 = emit ClientStart s2;
          s4 = emit ClientOnReady s3
      in s4\<lparr>pending := pending s4 @ [K_setupLanguageServer]\<rparr>)"

text \<open>The rest of \<^verbatim>\<open>setupLanguageServer\<close>, run when \<^verbatim>\<open>client.onReady()\<close> is settled.\<close>

definition setupLanguageServer_resume :: "outcome \<Rightarrow> state \<Rightarrow> state" where
  "setupLanguageServer_resume out s =
     (case out of
        Rejected \<Rightarrow> reject Rejection s
      | Resolved \<Rightarrow>
          (case and_then (and_then (onRequest ''malloy/fetchFile'' fetchFile_handler s)
                            (onRequest ''malloy/fetchBinaryFile'' fetchBinaryFile_handler))
                  (onRequest ''malloy/fetchCellData'' fetchCellData_handler) of
             Inl e \<Rightarrow> reject e s
           | Inr s' \<Rightarrow> s'))"

text \<open>
  \<^verbatim>\<open>fetchFile\<close>, \<^verbatim>\<open>fetchBinaryFile\<close> and \<^verbatim>\<open>fetchCellData\<close> are imported from the utilities
  module and are parameters here. Each maps a URI to the outcome of the promise it
  returns; \<^verbatim>\<open>return await f(event.uri)\<close> settles the handler's promise with that outcome.
\<close>

record ('f, 'b, 'c) utils =
  fetchFile :: "string \<Rightarrow> 'f"
  fetchBinaryFile :: "string \<Rightarrow> 'b"
  fetchCellData :: "string \<Rightarrow> 'c"

datatype ('f, 'b, 'c) response = FileResult 'f | BinaryResult 'b | CellDataResult 'c

fun invoke ::
  "('f, 'b, 'c) utils \<Rightarrow> handler \<Rightarrow> FetchEvent \<Rightarrow> state \<Rightarrow> ('f, 'b, 'c) response \<times> state" where
  "invoke U fetchFile_handler event s =
     (FileResult (fetchFile U (uri event)),
      emit (ConsoleInfo ''fetchFile returning'' (uri event)) s)"
| "invoke U fetchBinaryFile_handler event s =
     (BinaryResult (fetchBinaryFile U (uri event)),
      emit (ConsoleInfo ''fetchBinaryFile returning'' (uri event)) s)"
| "invoke U fetchCellData_handler event s =
     (CellDataResult (fetchCellData U (uri event)),
      emit (ConsoleInfo ''fetchCellData returning'' (uri event)) s)"

text \<open>A request from the language server: the client looks the method up among the
  registered handlers and answers with what the handler returns; no handler, no result.\<close>

definition request ::
  "('f, 'b, 'c) utils \<Rightarrow> string \<Rightarrow> FetchEvent \<Rightarrow> state \<Rightarrow> ('f, 'b, 'c) response option \<times> state" where
  "request U method event s =
     (case client s of
        None \<Rightarrow> (None, s)
      | Some c \<Rightarrow>
          (case requestHandlers c method of
             None \<Rightarrow> (None, s)
           | Some h \<Rightarrow> (case invoke U h event s of (r, s') \<Rightarrow> (Some r, s'))))"

section \<open>The configuration listener\<close>

text \<open>The closure passed to \<^verbatim>\<open>onDidChangeConfiguration\<close>, split at its \<^verbatim>\<open>await\<close>:
  \<open>listener_cloudshell\<close> is the second \<^verbatim>\<open>if\<close>, reached directly when the first one is
  skipped and from the continuation otherwise.\<close>

definition listener_cloudshell :: "ConfigurationChangeEvent \<Rightarrow> state \<Rightarrow> state" where
  "listener_cloudshell e s =
     (if affectsConfiguration e ''cloudshell'' then cloudshellEnv s else s)"

definition listener :: "ConnectionsProvider \<Rightarrow> ConfigurationChangeEvent \<Rightarrow> state \<Rightarrow> state" where
  "listener connectionsTree e s =
     (if affectsConfiguration e ''malloy''
      then (let s1 = emit OnConfigurationUpdated s
            in s1\<lparr>pending := pending s1 @ [K_listener connectionsTree e]\<rparr>)
      else listener_cloudshell e s)"

definition listener_resume ::
  "ConnectionsProvider \<Rightarrow> ConfigurationChangeEvent \<Rightarrow> outcome \<Rightarrow> state \<Rightarrow> state" where
  "listener_resume connectionsTree e out s =
     (case out of
        Rejected \<Rightarrow> reject Rejection s
      | Resolved \<Rightarrow>
          (let s1 = emit (Refresh connectionsTree) s
           in case sendWorkerConfig s1 of
                Inl err \<Rightarrow> reject err s1
              | Inr s2 \<Rightarrow> listener_cloudshell e s2))"

section \<open>Activation and deactivation\<close>

definition registerTreeDataProvider ::
  "string \<Rightarrow> ConnectionsProvider \<Rightarrow> state \<Rightarrow> disposable \<times> state" where
  "registerTreeDataProvider view t s =
     (TreeDataProviderRegistration view t, emit (RegisterTreeDataProvider view t) s)"

definition registerCommand :: "string \<Rightarrow> command \<Rightarrow> state \<Rightarrow> disposable \<times> state" where
  "registerCommand n c s =
     (CommandRegistration n c, emit (RegisterCommand n c) (s\<lparr>commands := commands s @ [(n, c)]\<rparr>))"

definition onDidChangeConfiguration :: "ConnectionsProvider \<Rightarrow> state \<Rightarrow> disposable \<times> state" where
  "onDidChangeConfiguration t s =
     (ConfigurationListenerRegistration t,
      emit (OnDidChangeConfiguration t) (s\<lparr>listeners := listeners s @ [t]\<rparr>))"

text \<open>
  \<^verbatim>\<open>setupSubscriptions\<close> is imported from the subscriptions module, a separate file, and is
  a parameter here. It is handed the extension context, so it can push disposables of
  its own onto \<^verbatim>\<open>context.subscriptions\<close>, and it can register commands with the editor; the
  parameter says which. Its own calls are not calls of this file and are not in the
  trace; the call of it is.
\<close>

record SubscriptionsSetup =
  registers :: "(string \<times> command) list"
  pushes :: "disposable list"

definition setupSubscriptions :: "SubscriptionsSetup \<Rightarrow> ExtensionContext \<Rightarrow> state \<Rightarrow> state" where
  "setupSubscriptions S context s =
     emit (SetupSubscriptions context)
       (s\<lparr>commands := commands s @ registers S, subscriptions := subscriptions s @ pushes S\<rparr>)"

definition subscriptions_push :: "disposable \<times> state \<Rightarrow> state" where
  "subscriptions_push ds = (case ds of (d, s) \<Rightarrow> s\<lparr>subscriptions := subscriptions s @ [d]\<rparr>)"

definition activate :: "SubscriptionsSetup \<Rightarrow> ExtensionContext \<Rightarrow> state \<Rightarrow> error + state" where
  "activate S context s =
     (let s1 = emit NewVSCodeURLReader s;
          s2 = setupSubscriptions S context s1;
          connectionsTree = ConnectionsProvider context;
          s3 = emit (NewConnectionsProvider context) s2;
          s4 = emit SetHomeUri s3;
          s5 = subscriptions_push (registerTreeDataProvider ''malloyConnections'' connectionsTree s4);
          s6 = subscriptions_push (registerCommand ''malloy.editConnections'' editConnectionsCommand s5);
          s7 = cloudshellEnv s6;
          s8 = subscriptions_push (onDidChangeConfiguration connectionsTree s7);
          s9 = setupLanguageServer context s8
      in setupWorker context s9)"

definition deactivate_worker :: "state \<Rightarrow> state" where
  "deactivate_worker s =
     (case getWorker s of
        None \<Rightarrow> s
      | Some w \<Rightarrow> send w ExitMessage s)"

text \<open>\<^verbatim>\<open>deactivate\<close> up to \<^verbatim>\<open>await client.stop()\<close>; without a client it never suspends.\<close>

definition deactivate :: "state \<Rightarrow> state" where
  "deactivate s =
     (case client s of
        Some c \<Rightarrow> (let s1 = emit ClientStop s in s1\<lparr>pending := pending s1 @ [K_deactivate]\<rparr>)
      | None \<Rightarrow> deactivate_worker s)"

definition deactivate_resume :: "outcome \<Rightarrow> state \<Rightarrow> state" where
  "deactivate_resume out s =
     (case out of
        Rejected \<Rightarrow> reject Rejection s
      | Resolved \<Rightarrow> deactivate_worker s)"

section \<open>The event loop\<close>

text \<open>
  What the host does to the extension once it is activated, one event at a time and
  each to completion before the next: the workspace configuration changes and the
  registered listeners are called; an awaited promise is settled and its continuation
  runs; the language server sends a request; the host deactivates the extension.
\<close>

datatype event =
    ConfigurationChanged ConfigurationChangeEvent "string \<Rightarrow> WorkspaceConfiguration"
  | Settled nat outcome
  | Request string FetchEvent
  | Deactivate

fun resume :: "continuation \<Rightarrow> outcome \<Rightarrow> state \<Rightarrow> state" where
  "resume K_setupLanguageServer out s = setupLanguageServer_resume out s"
| "resume (K_listener t e) out s = listener_resume t e out s"
| "resume K_deactivate out s = deactivate_resume out s"

fun fire :: "ConnectionsProvider list \<Rightarrow> ConfigurationChangeEvent \<Rightarrow> state \<Rightarrow> state" where
  "fire [] e s = s"
| "fire (t # ts) e s = fire ts e (listener t e s)"

fun step :: "('f, 'b, 'c) utils \<Rightarrow> event \<Rightarrow> state \<Rightarrow> state" where
  "step U (ConfigurationChanged e cfg) s = fire (listeners s) e (s\<lparr>workspace := cfg\<rparr>)"
| "step U (Settled i out) s =
     (if i < length (pending s)
      then resume (pending s ! i) out (s\<lparr>pending := take i (pending s) @ drop (Suc i) (pending s)\<rparr>)
      else s)"
| "step U (Request method event) s = snd (request U method event s)"
| "step U Deactivate s = deactivate s"

fun run_events :: "('f, 'b, 'c) utils \<Rightarrow> event list \<Rightarrow> state \<Rightarrow> state" where
  "run_events U [] s = s"
| "run_events U (ev # evs) s = run_events U evs (step U ev s)"

text \<open>The state in which the module is loaded: nothing created, nothing registered.\<close>

definition initial ::
  "(string \<Rightarrow> WorkspaceConfiguration) \<Rightarrow> (string \<rightharpoonup> string) \<Rightarrow> state" where
  "initial cfg environment =
     \<lparr>client = None, worker = None, outboxes = [], env = environment, workspace = cfg,
      subscriptions = [], commands = [], listeners = [], pending = [], unhandled = [],
      trace = []\<rparr>"

section \<open>Observations on states and traces\<close>

text \<open>The setting \<^verbatim>\<open>cloudshellEnv\<close> reads.\<close>

definition cloudShellProject :: "state \<Rightarrow> jsval" where
  "cloudShellProject s = config_get (workspace s ''cloudcode'') ''cloudshell.project''"

text \<open>The handler the current language client holds for a request method.\<close>

definition registered :: "state \<Rightarrow> string \<Rightarrow> handler option" where
  "registered s method = (case client s of None \<Rightarrow> None | Some c \<Rightarrow> requestHandlers c method)"



text \<open>The calls made by the body of \<^verbatim>\<open>setupLanguageServer\<close>, and those made by the body
  of \<^verbatim>\<open>setupWorker\<close> (with \<^verbatim>\<open>sendWorkerConfig\<close>, which it calls).\<close>

fun setupLanguageServer_action :: "action \<Rightarrow> bool" where
  "setupLanguageServer_action (CreateFileSystemWatcher g) = True"
| "setupLanguageServer_action (NewLanguageClient i n so co) = True"
| "setupLanguageServer_action ClientStart = True"
| "setupLanguageServer_action ClientOnReady = True"
| "setupLanguageServer_action (OnRequest m) = True"
| "setupLanguageServer_action a = False"

fun setupWorker_action :: "action \<Rightarrow> bool" where
  "setupWorker_action (NewWorkerConnection w) = True"
| "setupWorker_action (SetWorker w) = True"
| "setupWorker_action (WorkerSend w m) = True"
| "setupWorker_action (GetConfiguration sec) = (sec = ''malloy'')"
| "setupWorker_action a = False"

text \<open>\<open>all_before P Q as\<close>: in the trace \<open>as\<close>, no call satisfying \<open>Q\<close> is followed by one
  satisfying \<open>P\<close>; that is, everything \<open>P\<close> happens before anything \<open>Q\<close>.\<close>

fun all_before :: "('a \<Rightarrow> bool) \<Rightarrow> ('a \<Rightarrow> bool) \<Rightarrow> 'a list \<Rightarrow> bool" where
  "all_before P Q [] = True"
| "all_before P Q (a # as) = ((if Q a then list_all (\<lambda>b. \<not> P b) as else True) \<and> all_before P Q as)"

text \<open>The client object \<^verbatim>\<open>setupLanguageServer\<close> constructs, before any handler is
  registered on it.\<close>

definition malloy_client :: "ExtensionContext \<Rightarrow> LanguageClient" where
  "malloy_client context =
     new_LanguageClient ''malloy'' ''Malloy Language Server''
       \<lparr>run = \<lparr>module_path = asAbsolutePath context ''dist/server_node.js'', transport = ipc,
                execArgv = []\<rparr>,
        debug = \<lparr>module_path = asAbsolutePath context ''dist/server_node.js'', transport = ipc,
                  execArgv = [''--nolazy'', ''--inspect=6009'', ''--preserve-symlinks'',
                              ''--enable-source-maps'']\<rparr>\<rparr>
       \<lparr>documentSelector = [''malloy''], configurationSection = ''malloy'',
        fileEvents = ''**/.clientrc''\<rparr>"

text \<open>All three handlers are in place on the current client.\<close>

definition handlers_registered :: "state \<Rightarrow> bool" where
  "handlers_registered s \<longleftrightarrow>
     registered s ''malloy/fetchFile'' = Some fetchFile_handler \<and>
     registered s ''malloy/fetchBinaryFile'' = Some fetchBinaryFile_handler \<and>
     registered s ''malloy/fetchCellData'' = Some fetchCellData_handler"

text \<open>How many suspended runs of \<^verbatim>\<open>setupLanguageServer\<close> wait for \<^verbatim>\<open>client.onReady()\<close>, and
  how many rejections recorded so far are type errors.\<close>

definition awaiting_onReady :: "state \<Rightarrow> nat" where
  "awaiting_onReady s = length (filter (\<lambda>k. k = K_setupLanguageServer) (pending s))"

definition type_errors :: "state \<Rightarrow> nat" where
  "type_errors s = length (filter (\<lambda>x. x = TypeError) (unhandled s))"

text \<open>While a run of \<^verbatim>\<open>setupLanguageServer\<close> waits for \<^verbatim>\<open>client.onReady()\<close>, it is the only
  one, there is a client, and the client has no request handler.\<close>

definition waiting_unregistered :: "state \<Rightarrow> bool" where
  "waiting_unregistered s \<longleftrightarrow>
     client s \<noteq> None \<and> awaiting_onReady s \<le> 1 \<and>
     (awaiting_onReady s = 0 \<or> (\<forall>m. registered s m = None))"

subsection \<open>A concrete run\<close>

text \<open>An extension installed at \<^verbatim>\<open>/ext\<close>, a workspace with a cloud-shell project and one
  \<^verbatim>\<open>malloy\<close> setting, an empty environment, and utilities that answer with a text built
  from the URI.\<close>

definition example_context :: ExtensionContext where
  "example_context = ExtensionContext ''/ext''"

definition example_workspace :: "string \<Rightarrow> WorkspaceConfiguration" where
  "example_workspace sec =
     (if sec = ''cloudcode'' then [(''cloudshell.project'', JString ''my-project'')]
      else if sec = ''malloy'' then [(''rowLimit'', JNumber 50)]
      else [])"

definition example_initial :: state where
  "example_initial = initial example_workspace Map.empty"

text \<open>Two possible \<^verbatim>\<open>setupSubscriptions\<close>: one that registers and pushes nothing, and one
  that registers a command of its own and pushes its disposable.\<close>

definition no_subscriptions :: SubscriptionsSetup where
  "no_subscriptions = \<lparr>registers = [], pushes = []\<rparr>"


definition example_activated :: state where
  "example_activated =
     (case activate no_subscriptions example_context example_initial of
        Inr s \<Rightarrow> s | Inl e \<Rightarrow> example_initial)"

definition example_utils :: "(string, string, string) utils" where
  "example_utils =
     \<lparr>fetchFile = (\<lambda>u. ''text of '' @ u), fetchBinaryFile = (\<lambda>u. ''bytes of '' @ u),
      fetchCellData = (\<lambda>u. ''cells of '' @ u)\<rparr>"

definition changed :: "string list \<Rightarrow> ConfigurationChangeEvent" where
  "changed secs = \<lparr>affectsConfiguration = (\<lambda>sec. sec \<in> set secs)\<rparr>"

section \<open>What each function leaves unchanged\<close>

lemma emit_fields [simp]:
  "client (emit a s) = client s" "worker (emit a s) = worker s"
  "outboxes (emit a s) = outboxes s" "env (emit a s) = env s"
  "workspace (emit a s) = workspace s" "subscriptions (emit a s) = subscriptions s"
  "listeners (emit a s) = listeners s" "pending (emit a s) = pending s"
  "unhandled (emit a s) = unhandled s" "trace (emit a s) = trace s @ [a]"
  "commands (emit a s) = commands s"
  by (simp_all add: emit_def)

lemma reject_fields [simp]:
  "client (reject x s) = client s" "worker (reject x s) = worker s"
  "outboxes (reject x s) = outboxes s" "env (reject x s) = env s"
  "workspace (reject x s) = workspace s" "subscriptions (reject x s) = subscriptions s"
  "listeners (reject x s) = listeners s" "pending (reject x s) = pending s"
  "unhandled (reject x s) = unhandled s @ [x]" "trace (reject x s) = trace s"
  by (simp_all add: reject_def)

lemma cloudshellEnv_fields [simp]:
  "client (cloudshellEnv s) = client s" "worker (cloudshellEnv s) = worker s"
  "outboxes (cloudshellEnv s) = outboxes s"
  "workspace (cloudshellEnv s) = workspace s" "subscriptions (cloudshellEnv s) = subscriptions s"
  "listeners (cloudshellEnv s) = listeners s" "pending (cloudshellEnv s) = pending s"
  "unhandled (cloudshellEnv s) = unhandled s"
  "trace (cloudshellEnv s) = trace s @ [GetConfiguration ''cloudcode'']"
  "commands (cloudshellEnv s) = commands s"
  by (simp_all add: cloudshellEnv_def Let_def split: jsval.splits)

lemma send_fields [simp]:
  "client (send w m s) = client s" "worker (send w m s) = worker s"
  "env (send w m s) = env s"
  "workspace (send w m s) = workspace s" "subscriptions (send w m s) = subscriptions s"
  "listeners (send w m s) = listeners s" "pending (send w m s) = pending s"
  "unhandled (send w m s) = unhandled s" "trace (send w m s) = trace s @ [WorkerSend w m]"
  "outboxes (send w m s) = (outboxes s)[worker_id w := outboxes s ! worker_id w @ [m]]"
  "commands (send w m s) = commands s"
  by (simp_all add: send_def)

lemma listener_cloudshell_fields [simp]:
  "client (listener_cloudshell e s) = client s" "worker (listener_cloudshell e s) = worker s"
  "outboxes (listener_cloudshell e s) = outboxes s"
  "workspace (listener_cloudshell e s) = workspace s"
  "subscriptions (listener_cloudshell e s) = subscriptions s"
  "listeners (listener_cloudshell e s) = listeners s"
  "pending (listener_cloudshell e s) = pending s"
  "unhandled (listener_cloudshell e s) = unhandled s"
  "trace (listener_cloudshell e s) =
     trace s @ (if affectsConfiguration e ''cloudshell'' then [GetConfiguration ''cloudcode''] else [])"
  by (simp_all add: listener_cloudshell_def)

lemma sendWorkerConfig_Some:
  "worker s = Some w \<Longrightarrow>
   sendWorkerConfig s =
     Inr (send w (ConfigMessage (workspace s ''malloy'')) (emit (GetConfiguration ''malloy'') s))"
  by (simp add: sendWorkerConfig_def getWorker_def Let_def)

lemma sendWorkerConfig_None: "worker s = None \<Longrightarrow> sendWorkerConfig s = Inl TypeError"
  by (simp add: sendWorkerConfig_def getWorker_def)

lemma sendWorkerConfig_Inl: "sendWorkerConfig s = Inl x \<Longrightarrow> x = TypeError \<and> worker s = None"
  by (auto simp: sendWorkerConfig_def getWorker_def Let_def split: option.splits)

lemma listener_fields [simp]:
  "client (listener t e s) = client s" "worker (listener t e s) = worker s"
  "outboxes (listener t e s) = outboxes s" "workspace (listener t e s) = workspace s"
  "subscriptions (listener t e s) = subscriptions s" "listeners (listener t e s) = listeners s"
  "unhandled (listener t e s) = unhandled s"
  by (simp_all add: listener_def Let_def)

lemma fire_fields [simp]:
  "client (fire ts e s) = client s" "worker (fire ts e s) = worker s"
  "outboxes (fire ts e s) = outboxes s" "workspace (fire ts e s) = workspace s"
  "subscriptions (fire ts e s) = subscriptions s" "listeners (fire ts e s) = listeners s"
  "unhandled (fire ts e s) = unhandled s"
  by (induction ts arbitrary: s) simp_all

lemma listener_resume_fields [simp]:
  "client (listener_resume t e out s) = client s" "worker (listener_resume t e out s) = worker s"
  "workspace (listener_resume t e out s) = workspace s"
  "subscriptions (listener_resume t e out s) = subscriptions s"
  "listeners (listener_resume t e out s) = listeners s"
  "pending (listener_resume t e out s) = pending s"
  by (cases out; cases "worker s";
      simp add: listener_resume_def Let_def sendWorkerConfig_Some sendWorkerConfig_None)+

lemma deactivate_worker_fields [simp]:
  "client (deactivate_worker s) = client s" "worker (deactivate_worker s) = worker s"
  "workspace (deactivate_worker s) = workspace s" "env (deactivate_worker s) = env s"
  "subscriptions (deactivate_worker s) = subscriptions s"
  "listeners (deactivate_worker s) = listeners s"
  "pending (deactivate_worker s) = pending s"
  "unhandled (deactivate_worker s) = unhandled s"
  by (simp_all add: deactivate_worker_def getWorker_def split: option.splits)

lemma deactivate_fields [simp]:
  "client (deactivate s) = client s" "worker (deactivate s) = worker s"
  "workspace (deactivate s) = workspace s" "env (deactivate s) = env s"
  "subscriptions (deactivate s) = subscriptions s"
  "listeners (deactivate s) = listeners s"
  "unhandled (deactivate s) = unhandled s"
  by (simp_all add: deactivate_def Let_def split: option.splits)

lemma deactivate_resume_fields [simp]:
  "client (deactivate_resume out s) = client s" "worker (deactivate_resume out s) = worker s"
  "workspace (deactivate_resume out s) = workspace s" "env (deactivate_resume out s) = env s"
  "subscriptions (deactivate_resume out s) = subscriptions s"
  "listeners (deactivate_resume out s) = listeners s"
  "pending (deactivate_resume out s) = pending s"
  by (cases out; simp add: deactivate_resume_def)+

lemma setupLanguageServer_resume_Resolved:
  "client s = Some c \<Longrightarrow>
   setupLanguageServer_resume Resolved s =
     s\<lparr>client := Some (c\<lparr>requestHandlers := (requestHandlers c)
                          (''malloy/fetchFile'' \<mapsto> fetchFile_handler,
                           ''malloy/fetchBinaryFile'' \<mapsto> fetchBinaryFile_handler,
                           ''malloy/fetchCellData'' \<mapsto> fetchCellData_handler)\<rparr>),
       trace := trace s @ [OnRequest ''malloy/fetchFile'', OnRequest ''malloy/fetchBinaryFile'',
                           OnRequest ''malloy/fetchCellData'']\<rparr>"
  by (simp add: setupLanguageServer_resume_def onRequest_def and_then_def emit_def)

lemma setupLanguageServer_resume_None:
  "client s = None \<Longrightarrow> setupLanguageServer_resume Resolved s = reject TypeError s"
  by (simp add: setupLanguageServer_resume_def onRequest_def and_then_def)

lemma setupLanguageServer_resume_Rejected:
  "setupLanguageServer_resume Rejected s = reject Rejection s"
  by (simp add: setupLanguageServer_resume_def)

lemma setupLanguageServer_resume_fields [simp]:
  "worker (setupLanguageServer_resume out s) = worker s"
  "workspace (setupLanguageServer_resume out s) = workspace s"
  "env (setupLanguageServer_resume out s) = env s"
  "outboxes (setupLanguageServer_resume out s) = outboxes s"
  "subscriptions (setupLanguageServer_resume out s) = subscriptions s"
  "listeners (setupLanguageServer_resume out s) = listeners s"
  "pending (setupLanguageServer_resume out s) = pending s"
  by (cases out; cases "client s";
      simp add: setupLanguageServer_resume_Resolved setupLanguageServer_resume_None
        setupLanguageServer_resume_Rejected)+

lemma invoke_fields [simp]:
  "client (snd (invoke U h ev s)) = client s" "worker (snd (invoke U h ev s)) = worker s"
  "workspace (snd (invoke U h ev s)) = workspace s" "env (snd (invoke U h ev s)) = env s"
  "outboxes (snd (invoke U h ev s)) = outboxes s"
  "subscriptions (snd (invoke U h ev s)) = subscriptions s"
  "listeners (snd (invoke U h ev s)) = listeners s"
  "pending (snd (invoke U h ev s)) = pending s"
  "unhandled (snd (invoke U h ev s)) = unhandled s"
  by (cases h; simp)+

lemma request_snd:
  "snd (request U m ev s) =
     (case client s of None \<Rightarrow> s
      | Some c \<Rightarrow> (case requestHandlers c m of None \<Rightarrow> s | Some h \<Rightarrow> snd (invoke U h ev s)))"
  by (simp add: request_def split: option.splits prod.splits)

lemma request_fields [simp]:
  "client (snd (request U m ev s)) = client s" "worker (snd (request U m ev s)) = worker s"
  "workspace (snd (request U m ev s)) = workspace s" "env (snd (request U m ev s)) = env s"
  "outboxes (snd (request U m ev s)) = outboxes s"
  "subscriptions (snd (request U m ev s)) = subscriptions s"
  "listeners (snd (request U m ev s)) = listeners s"
  "pending (snd (request U m ev s)) = pending s"
  "unhandled (snd (request U m ev s)) = unhandled s"
  by (simp_all add: request_snd split: option.splits)

lemma resume_fields [simp]:
  "worker (resume k out s) = worker s" "listeners (resume k out s) = listeners s"
  "workspace (resume k out s) = workspace s" "subscriptions (resume k out s) = subscriptions s"
  "pending (resume k out s) = pending s"
  by (cases k; simp)+

lemma step_worker [simp]: "worker (step U ev s) = worker s"
  by (cases ev) simp_all

lemma step_listeners [simp]: "listeners (step U ev s) = listeners s"
  by (cases ev) simp_all

lemma step_subscriptions [simp]: "subscriptions (step U ev s) = subscriptions s"
  by (cases ev) simp_all

lemma run_events_worker [simp]: "worker (run_events U evs s) = worker s"
  by (induction evs arbitrary: s) simp_all

lemma run_events_listeners [simp]: "listeners (run_events U evs s) = listeners s"
  by (induction evs arbitrary: s) simp_all

section \<open>Results of the setup functions\<close>

lemma setupWorker_result:
  "setupWorker context s =
     Inr (s\<lparr>worker := Some (WorkerConnection (length (outboxes s)) context),
            outboxes := outboxes s @ [[ConfigMessage (workspace s ''malloy'')]],
            trace := trace s @
              [NewWorkerConnection (WorkerConnection (length (outboxes s)) context),
               SetWorker (WorkerConnection (length (outboxes s)) context),
               GetConfiguration ''malloy'',
               WorkerSend (WorkerConnection (length (outboxes s)) context)
                 (ConfigMessage (workspace s ''malloy''))]\<rparr>)"
  by (simp add: setupWorker_def new_WorkerConnection_def sendWorkerConfig_def setWorker_def
      getWorker_def send_def emit_def Let_def)

lemma setupLanguageServer_result:
  "setupLanguageServer context s =
     s\<lparr>client := Some (malloy_client context),
       pending := pending s @ [K_setupLanguageServer],
       trace := trace s @
         [CreateFileSystemWatcher ''**/.clientrc'',
          NewLanguageClient ''malloy'' ''Malloy Language Server''
            (serverOptions (malloy_client context)) (clientOptions (malloy_client context)),
          ClientStart, ClientOnReady]\<rparr>"
  by (simp add: setupLanguageServer_def malloy_client_def new_LanguageClient_def emit_def Let_def)

lemma cloudshellEnv_env_cong:
  "env s1 = env s2 \<Longrightarrow> workspace s1 = workspace s2 \<Longrightarrow>
   env (cloudshellEnv s1) = env (cloudshellEnv s2)"
  by (simp add: cloudshellEnv_def Let_def split: jsval.splits)

lemma activate_total: "\<exists>s'. activate S context s = Inr s'"
  by (simp add: activate_def Let_def setupWorker_result)

lemma activate_fields:
  assumes "activate S context s = Inr s'"
  shows "client s' = Some (malloy_client context)"
    and "worker s' = Some (WorkerConnection (length (outboxes s)) context)"
    and "outboxes s' = outboxes s @ [[ConfigMessage (workspace s ''malloy'')]]"
    and "workspace s' = workspace s"
    and "subscriptions s' = subscriptions s @ pushes S @
           [TreeDataProviderRegistration ''malloyConnections'' (ConnectionsProvider context),
            CommandRegistration ''malloy.editConnections'' editConnectionsCommand,
            ConfigurationListenerRegistration (ConnectionsProvider context)]"
    and "listeners s' = listeners s @ [ConnectionsProvider context]"
    and "pending s' = pending s @ [K_setupLanguageServer]"
    and "unhandled s' = unhandled s"
    and "commands s' = commands s @ registers S @
           [(''malloy.editConnections'', editConnectionsCommand)]"
  using assms
  by (auto simp: activate_def Let_def setupWorker_result setupLanguageServer_result
      subscriptions_push_def registerTreeDataProvider_def registerCommand_def
      onDidChangeConfiguration_def setupSubscriptions_def)

lemma activate_env:
  assumes "activate S context s = Inr s'"
  shows "env s' = env (cloudshellEnv s)"
proof -
  have "env s' = env (cloudshellEnv
          (subscriptions_push (registerCommand ''malloy.editConnections'' editConnectionsCommand
            (subscriptions_push (registerTreeDataProvider ''malloyConnections''
               (ConnectionsProvider context)
               (emit SetHomeUri (emit (NewConnectionsProvider context)
                 (setupSubscriptions S context (emit NewVSCodeURLReader s)))))))))"
    using assms
    by (auto simp: activate_def Let_def setupWorker_result setupLanguageServer_result
        subscriptions_push_def onDidChangeConfiguration_def)
  also have "\<dots> = env (cloudshellEnv s)"
    by (rule cloudshellEnv_env_cong)
       (simp_all add: subscriptions_push_def registerTreeDataProvider_def registerCommand_def
          setupSubscriptions_def)
  finally show ?thesis .
qed

lemma activate_trace:
  assumes "activate S context s = Inr s'"
  shows "trace s' = trace s @
     [NewVSCodeURLReader, SetupSubscriptions context, NewConnectionsProvider context, SetHomeUri,
      RegisterTreeDataProvider ''malloyConnections'' (ConnectionsProvider context),
      RegisterCommand ''malloy.editConnections'' editConnectionsCommand,
      GetConfiguration ''cloudcode'',
      OnDidChangeConfiguration (ConnectionsProvider context),
      CreateFileSystemWatcher ''**/.clientrc'',
      NewLanguageClient ''malloy'' ''Malloy Language Server''
        (serverOptions (malloy_client context)) (clientOptions (malloy_client context)),
      ClientStart, ClientOnReady,
      NewWorkerConnection (WorkerConnection (length (outboxes s)) context),
      SetWorker (WorkerConnection (length (outboxes s)) context),
      GetConfiguration ''malloy'',
      WorkerSend (WorkerConnection (length (outboxes s)) context)
        (ConfigMessage (workspace s ''malloy''))]"
  using assms
  by (auto simp: activate_def Let_def setupWorker_result setupLanguageServer_result
      subscriptions_push_def registerTreeDataProvider_def registerCommand_def
      onDidChangeConfiguration_def setupSubscriptions_def)

section \<open>The concrete run, evaluated\<close>

lemma example_activated_eq: "activate no_subscriptions example_context example_initial = Inr example_activated"
  using activate_total [of no_subscriptions example_context example_initial]
  by (auto simp: example_activated_def)

lemma example_activated_state:
  "example_activated =
     \<lparr>client = Some (malloy_client example_context),
      worker = Some (WorkerConnection 0 example_context),
      outboxes = [[ConfigMessage [(''rowLimit'', JNumber 50)]]],
      env = [''DEVSHELL_PROJECT_ID'' \<mapsto> ''my-project'', ''GOOGLE_CLOUD_PROJECT'' \<mapsto> ''my-project'',
             ''GOOGLE_CLOUD_QUOTA_PROJECT'' \<mapsto> ''my-project''],
      workspace = example_workspace,
      subscriptions =
        [TreeDataProviderRegistration ''malloyConnections'' (ConnectionsProvider example_context),
         CommandRegistration ''malloy.editConnections'' editConnectionsCommand,
         ConfigurationListenerRegistration (ConnectionsProvider example_context)],
      commands = [(''malloy.editConnections'', editConnectionsCommand)],
      listeners = [ConnectionsProvider example_context],
      pending = [K_setupLanguageServer],
      unhandled = [],
      trace =
        [NewVSCodeURLReader, SetupSubscriptions example_context,
         NewConnectionsProvider example_context, SetHomeUri,
         RegisterTreeDataProvider ''malloyConnections'' (ConnectionsProvider example_context),
         RegisterCommand ''malloy.editConnections'' editConnectionsCommand,
         GetConfiguration ''cloudcode'',
         OnDidChangeConfiguration (ConnectionsProvider example_context),
         CreateFileSystemWatcher ''**/.clientrc'',
         NewLanguageClient ''malloy'' ''Malloy Language Server''
           (serverOptions (malloy_client example_context))
           (clientOptions (malloy_client example_context)),
         ClientStart, ClientOnReady,
         NewWorkerConnection (WorkerConnection 0 example_context),
         SetWorker (WorkerConnection 0 example_context),
         GetConfiguration ''malloy'',
         WorkerSend (WorkerConnection 0 example_context)
           (ConfigMessage [(''rowLimit'', JNumber 50)])]\<rparr>"
proof -
  note f = activate_fields [OF example_activated_eq] activate_trace [OF example_activated_eq]
    activate_env [OF example_activated_eq]
  have e: "env (cloudshellEnv example_initial) =
      [''DEVSHELL_PROJECT_ID'' \<mapsto> ''my-project'', ''GOOGLE_CLOUD_PROJECT'' \<mapsto> ''my-project'',
       ''GOOGLE_CLOUD_QUOTA_PROJECT'' \<mapsto> ''my-project'']"
    by (simp add: cloudshellEnv_def example_initial_def initial_def example_workspace_def
        config_get_def emit_def process_env_set_def env_value_def)
  show ?thesis
    by (rule state.equality)
       (simp_all add: f e,
        simp_all add: example_initial_def initial_def example_workspace_def no_subscriptions_def)
qed

section \<open>Worker setup\<close>

text \<open>
  Claim C7. After \<^verbatim>\<open>setupWorker(context)\<close> returns, \<^verbatim>\<open>getWorker()\<close> returns the
  \<^verbatim>\<open>WorkerConnection\<close> constructed from \<open>context\<close>, and exactly one message has been sent
  to that worker: a message of type \<^verbatim>\<open>config\<close> carrying the current \<^verbatim>\<open>malloy\<close> workspace
  configuration. \<^verbatim>\<open>setupWorker\<close> always returns, and it sends nothing else to anyone.
\<close>

theorem setupWorker_registers_and_configures:
  "\<exists>w s1 s'.
     new_WorkerConnection context s = (w, s1) \<and>
     worker_context w = context \<and>
     setupWorker context s = Inr s' \<and>
     getWorker s' = Some w \<and>
     outbox w s' = [ConfigMessage (workspace s' ''malloy'')] \<and>
     map message_type (outbox w s') = [''config''] \<and>
     workspace s' = workspace s \<and>
     take (length (outboxes s)) (outboxes s') = outboxes s \<and>
     trace s' = trace s @ [NewWorkerConnection w, SetWorker w, GetConfiguration ''malloy'',
                           WorkerSend w (ConfigMessage (workspace s ''malloy''))]"
proof -
  let ?w = "WorkerConnection (length (outboxes s)) context"
  have new: "new_WorkerConnection context s =
      (?w, emit (NewWorkerConnection ?w) (s\<lparr>outboxes := outboxes s @ [[]]\<rparr>))"
    by (simp add: new_WorkerConnection_def Let_def)
  show ?thesis
    unfolding new
    by (simp add: setupWorker_result getWorker_def outbox_def)
qed

section \<open>Registrations made by activation\<close>



section \<open>Events that concern other sections\<close>

lemma fire_unaffected:
  "\<not> affectsConfiguration e ''malloy'' \<Longrightarrow> \<not> affectsConfiguration e ''cloudshell'' \<Longrightarrow>
   fire ts e s = s"
  by (induction ts arbitrary: s) (simp_all add: listener_def listener_cloudshell_def)

text \<open>
  Claim C10. For a configuration-change event that affects neither the \<^verbatim>\<open>malloy\<close> nor the
  \<^verbatim>\<open>cloudshell\<close> section, the listener does nothing: the state after it is the state
  before it, so no worker message is sent, the tree is not refreshed, the connection
  manager is not called, and the environment is unchanged. Delivering such an event to
  any number of registered listeners leaves everything but the host's new workspace
  configuration as it was.
\<close>

theorem listener_ignores_other_sections:
  assumes "\<not> affectsConfiguration e ''malloy''" and "\<not> affectsConfiguration e ''cloudshell''"
  shows "listener t e s = s \<and>
         step U (ConfigurationChanged e cfg) s = s\<lparr>workspace := cfg\<rparr>"
proof
  show "listener t e s = s"
    using assms by (simp add: listener_def listener_cloudshell_def)
  show "step U (ConfigurationChanged e cfg) s = s\<lparr>workspace := cfg\<rparr>"
    using assms by (simp add: fire_unaffected)
qed

theorem listener_ignores_other_sections_witness:
  "listener (ConnectionsProvider example_context) (changed [''editor'']) example_activated =
     example_activated \<and>
   step example_utils (ConfigurationChanged (changed [''editor'']) (\<lambda>sec. [])) example_activated =
     example_activated\<lparr>workspace := (\<lambda>sec. [])\<rparr>"
proof -
  have m: "\<not> affectsConfiguration (changed [''editor'']) ''malloy''"
    by (simp add: changed_def)
  have c: "\<not> affectsConfiguration (changed [''editor'']) ''cloudshell''"
    by (simp add: changed_def)
  show ?thesis
    using listener_ignores_other_sections [OF m c] by simp
qed

section \<open>Deactivation\<close>

text \<open>
  Claim C9. \<^verbatim>\<open>deactivate\<close> calls \<^verbatim>\<open>client.stop()\<close> only when a language client was created,
  and sends \<^verbatim>\<open>{type: 'exit'}\<close> to the worker only when \<^verbatim>\<open>getWorker()\<close> returns one; with
  neither it completes without doing anything. When there is a client, the call of
  \<^verbatim>\<open>client.stop()\<close> is all that happens before the function is suspended, and the exit
  message is sent by the continuation, that is, only once \<^verbatim>\<open>client.stop()\<close> has resolved;
  if it is rejected, nothing is sent. (Without a client there is nothing to wait for and
  the exit message goes out at once.)
\<close>

theorem deactivate_guards:
  "(client s = None \<and> getWorker s = None \<longrightarrow> deactivate s = s) \<and>
   (client s = None \<and> getWorker s = Some w \<longrightarrow>
      trace (deactivate s) = trace s @ [WorkerSend w ExitMessage] \<and>
      pending (deactivate s) = pending s) \<and>
   (client s = Some c \<longrightarrow>
      trace (deactivate s) = trace s @ [ClientStop] \<and>
      pending (deactivate s) = pending s @ [K_deactivate] \<and>
      outboxes (deactivate s) = outboxes s) \<and>
   (getWorker s = Some w \<longrightarrow>
      trace (deactivate_resume Resolved s) = trace s @ [WorkerSend w ExitMessage]) \<and>
   (getWorker s = None \<longrightarrow> deactivate_resume Resolved s = s) \<and>
   trace (deactivate_resume Rejected s) = trace s \<and>
   outboxes (deactivate_resume Rejected s) = outboxes s"
proof (cases "client s")
  case None
  then show ?thesis
    by (cases "worker s")
       (simp_all add: deactivate_def deactivate_resume_def deactivate_worker_def getWorker_def)
next
  case (Some c')
  then show ?thesis
    by (cases "worker s")
       (simp_all add: deactivate_def deactivate_resume_def deactivate_worker_def getWorker_def
          Let_def)
qed

theorem deactivate_guards_witness:
  "deactivate example_initial = example_initial \<and>
   trace (run_events example_utils [Deactivate, Settled 1 Resolved] example_activated) =
     trace example_activated @ [ClientStop, WorkerSend (WorkerConnection 0 example_context) ExitMessage] \<and>
   trace (run_events example_utils [Deactivate, Settled 1 Rejected] example_activated) =
     trace example_activated @ [ClientStop]"
proof -
  let ?w = "WorkerConnection 0 example_context"
  let ?d = "deactivate example_activated"
  let ?k = "?d\<lparr>pending := [K_setupLanguageServer]\<rparr>"
  have i: "client example_initial = None \<and> getWorker example_initial = None"
    by (simp add: example_initial_def initial_def getWorker_def)
  have a: "client example_activated = Some (malloy_client example_context)"
    by (simp add: example_activated_state)
  have w: "getWorker ?k = Some ?w"
    by (simp add: getWorker_def example_activated_state)
  have p: "pending example_activated = [K_setupLanguageServer]"
    by (simp add: example_activated_state)
  from deactivate_guards [of example_initial] i
  have 1: "deactivate example_initial = example_initial" by blast
  from deactivate_guards [of example_activated _ "malloy_client example_context"] a
  have 2: "trace ?d = trace example_activated @ [ClientStop]"
    and 3: "pending ?d = pending example_activated @ [K_deactivate]" by blast+
  from deactivate_guards [of ?k ?w] w
  have 4: "trace (deactivate_resume Resolved ?k) = trace ?k @ [WorkerSend ?w ExitMessage]"
    and 5: "trace (deactivate_resume Rejected ?k) = trace ?k" by blast+
  show ?thesis
    using 1 2 3 4 5 p by simp
qed

section \<open>Invariants of the event loop\<close>

lemma listener_resume_Resolved:
  "worker s = Some w \<Longrightarrow>
   listener_resume t e Resolved s =
     listener_cloudshell e
       (send w (ConfigMessage (workspace s ''malloy''))
          (emit (GetConfiguration ''malloy'') (emit (Refresh t) s)))"
  by (simp add: listener_resume_def Let_def sendWorkerConfig_Some)

lemma listener_resume_Rejected: "listener_resume t e Rejected s = reject Rejection s"
  by (simp add: listener_resume_def)

lemma type_errors_resume:
  assumes "worker s \<noteq> None" and "client s \<noteq> None"
  shows "type_errors (resume k out s) = type_errors s"
proof -
  obtain w c where w: "worker s = Some w" and c: "client s = Some c"
    using assms by auto
  show ?thesis
  proof (cases k)
    case K_setupLanguageServer
    then show ?thesis
      by (cases out)
         (simp_all add: type_errors_def setupLanguageServer_resume_Resolved [OF c]
            setupLanguageServer_resume_Rejected)
  next
    case (K_listener t e)
    then show ?thesis
      by (cases out)
         (simp_all add: type_errors_def listener_resume_Resolved [OF w] listener_resume_Rejected)
  next
    case K_deactivate
    then show ?thesis
      by (cases out) (simp_all add: type_errors_def deactivate_resume_def)
  qed
qed

lemma client_resume: "client s \<noteq> None \<Longrightarrow> client (resume k out s) \<noteq> None"
proof (cases k)
  case K_setupLanguageServer
  assume "client s \<noteq> None"
  then obtain c where c: "client s = Some c" by auto
  show ?thesis
    using K_setupLanguageServer c
    by (cases out)
       (simp_all add: setupLanguageServer_resume_Resolved [OF c] setupLanguageServer_resume_Rejected)
qed simp_all

lemma client_step: "client s \<noteq> None \<Longrightarrow> client (step U ev s) \<noteq> None"
proof (cases ev)
  case (Settled i out)
  assume "client s \<noteq> None"
  then have "client (resume (pending s ! i) out
      (s\<lparr>pending := take i (pending s) @ drop (Suc i) (pending s)\<rparr>)) \<noteq> None"
    by (intro client_resume) simp
  then show ?thesis
    using Settled \<open>client s \<noteq> None\<close> by simp
qed simp_all

lemma client_run_events: "client s \<noteq> None \<Longrightarrow> client (run_events U evs s) \<noteq> None"
proof (induction evs arbitrary: s)
  case Nil
  then show ?case by simp
next
  case (Cons ev evs)
  from Cons.prems have "client (step U ev s) \<noteq> None"
    by (rule client_step)
  then show ?case
    using Cons.IH by simp
qed

lemma type_errors_step:
  assumes "worker s \<noteq> None" and "client s \<noteq> None"
  shows "type_errors (step U ev s) = type_errors s"
proof (cases ev)
  case (Settled i out)
  then show ?thesis
    using assms by (simp add: type_errors_resume) (simp add: type_errors_def)
qed (simp_all add: type_errors_def)

lemma type_errors_run_events:
  "worker s \<noteq> None \<Longrightarrow> client s \<noteq> None \<Longrightarrow> type_errors (run_events U evs s) = type_errors s"
proof (induction evs arbitrary: s)
  case Nil
  then show ?case by simp
next
  case (Cons ev evs)
  have "worker (step U ev s) \<noteq> None"
    using Cons.prems(1) by simp
  moreover have "client (step U ev s) \<noteq> None"
    using Cons.prems(2) by (rule client_step)
  ultimately have "type_errors (run_events U evs (step U ev s)) = type_errors (step U ev s)"
    by (rule Cons.IH)
  then show ?case
    using type_errors_step [OF Cons.prems] by simp
qed

section \<open>The worker is there whenever its configuration is sent\<close>

text \<open>Without a registered worker the call does fail, and a listener's continuation that
  makes it is rejected with a type error: the property below is not empty.\<close>

lemma listener_resume_without_worker:
  "sendWorkerConfig (initial cfg environment) = Inl TypeError \<and>
   type_errors (listener_resume t e Resolved (initial cfg environment)) = 1"
  by (simp add: listener_resume_def sendWorkerConfig_None initial_def type_errors_def Let_def)


text \<open>
  Claim C8. Every call of \<^verbatim>\<open>sendWorkerConfig\<close> once \<^verbatim>\<open>activate\<close> has run finds a worker
  registered, so \<^verbatim>\<open>getWorker().send\<close> never meets an absent worker. Inside \<^verbatim>\<open>setupWorker\<close>
  the call follows \<^verbatim>\<open>setWorker\<close>, so \<^verbatim>\<open>setupWorker\<close> and with it \<^verbatim>\<open>activate\<close> return normally
  from any state. Activation is one uninterrupted run of the event loop, so the listener
  can only be called in states that follow it; in every such state, reached by any
  sequence of events, the worker registered by \<^verbatim>\<open>activate\<close> is still the registered one,
  \<^verbatim>\<open>sendWorkerConfig\<close> succeeds, and no type error has been raised by any listener or
  continuation that ran on the way.
\<close>

theorem sendWorkerConfig_always_finds_worker:
  "(\<exists>s'. setupWorker context s = Inr s') \<and>
   (\<exists>w s0. activate S context s = Inr s0 \<and> getWorker s0 = Some w \<and>
      (\<forall>evs. getWorker (run_events U evs s0) = Some w \<and>
             (\<exists>s'. sendWorkerConfig (run_events U evs s0) = Inr s') \<and>
             type_errors (run_events U evs s0) = type_errors s))"
proof
  show "\<exists>s'. setupWorker context s = Inr s'"
    by (simp add: setupWorker_result)
next
  obtain s0 where s0: "activate S context s = Inr s0"
    using activate_total by blast
  let ?w = "WorkerConnection (length (outboxes s)) context"
  have w: "worker s0 = Some ?w" and c: "client s0 \<noteq> None" and u: "unhandled s0 = unhandled s"
    using activate_fields [OF s0] by simp_all
  have "getWorker (run_events U evs s0) = Some ?w \<and>
        (\<exists>s'. sendWorkerConfig (run_events U evs s0) = Inr s') \<and>
        type_errors (run_events U evs s0) = type_errors s" for evs
  proof -
    have "worker (run_events U evs s0) = Some ?w"
      using w by simp
    moreover from this have "\<exists>s'. sendWorkerConfig (run_events U evs s0) = Inr s'"
      by (simp add: sendWorkerConfig_Some)
    moreover have "type_errors (run_events U evs s0) = type_errors s"
      using type_errors_run_events [of s0 U evs] w c u by (simp add: type_errors_def)
    ultimately show ?thesis
      by (simp add: getWorker_def)
  qed
  then show "\<exists>w s0. activate S context s = Inr s0 \<and> getWorker s0 = Some w \<and>
      (\<forall>evs. getWorker (run_events U evs s0) = Some w \<and>
             (\<exists>s'. sendWorkerConfig (run_events U evs s0) = Inr s') \<and>
             type_errors (run_events U evs s0) = type_errors s)"
    using s0 w by (auto simp: getWorker_def)
qed

section \<open>Requests from the language server\<close>

lemma registered_emit [simp]: "registered (emit a s) m = registered s m"
  by (simp add: registered_def)

lemma handlers_registered_cong:
  "client s' = client s \<Longrightarrow> handlers_registered s \<Longrightarrow> handlers_registered s'"
  by (simp add: handlers_registered_def registered_def)

lemma handlers_registered_resume_setup:
  assumes "client s \<noteq> None"
  shows "handlers_registered (setupLanguageServer_resume Resolved s)"
proof -
  obtain c where c: "client s = Some c"
    using assms by auto
  show ?thesis
    by (simp add: setupLanguageServer_resume_Resolved [OF c] handlers_registered_def
        registered_def)
qed

lemma handlers_registered_resume:
  assumes "handlers_registered s"
  shows "handlers_registered (resume k out s)"
proof (cases k)
  case K_setupLanguageServer
  show ?thesis
  proof (cases out)
    case Resolved
    have "client s \<noteq> None"
      using assms by (auto simp: handlers_registered_def registered_def split: option.splits)
    then show ?thesis
      using K_setupLanguageServer Resolved by (simp add: handlers_registered_resume_setup)
  next
    case Rejected
    then show ?thesis
      using K_setupLanguageServer
      by (simp add: setupLanguageServer_resume_Rejected
          handlers_registered_cong [OF _ assms])
  qed
next
  case (K_listener t e)
  then show ?thesis
    by (simp add: handlers_registered_cong [OF _ assms])
next
  case K_deactivate
  then show ?thesis
    by (simp add: handlers_registered_cong [OF _ assms])
qed

lemma handlers_registered_step:
  assumes "handlers_registered s"
  shows "handlers_registered (step U ev s)"
proof (cases ev)
  case (Settled i out)
  have "handlers_registered (s\<lparr>pending := take i (pending s) @ drop (Suc i) (pending s)\<rparr>)"
    by (rule handlers_registered_cong [OF _ assms]) simp
  then show ?thesis
    using Settled assms by (simp add: handlers_registered_resume)
qed (simp_all add: handlers_registered_cong [OF _ assms])

lemma handlers_registered_run_events:
  "handlers_registered s \<Longrightarrow> handlers_registered (run_events U evs s)"
  by (induction evs arbitrary: s) (simp_all add: handlers_registered_step)

lemma request_registered:
  "registered s m = Some h \<Longrightarrow> fst (request U m ev s) = Some (fst (invoke U h ev s))"
  by (auto simp: request_def registered_def split: option.splits prod.splits)

text \<open>
  Claim C1. Once the handlers are registered (the continuation of \<^verbatim>\<open>setupLanguageServer\<close>
  has run on a state that has a client), then after any further events every request
  \<^verbatim>\<open>malloy/fetchFile\<close>, \<^verbatim>\<open>malloy/fetchBinaryFile\<close> or \<^verbatim>\<open>malloy/fetchCellData\<close> is answered with
  exactly what \<^verbatim>\<open>fetchFile\<close>, \<^verbatim>\<open>fetchBinaryFile\<close> or \<^verbatim>\<open>fetchCellData\<close> returns for the event's
  \<^verbatim>\<open>uri\<close>, untransformed.
\<close>

theorem request_returns_fetch_result:
  assumes "client s \<noteq> None"
  shows "fst (request U ''malloy/fetchFile'' event
            (run_events U evs (setupLanguageServer_resume Resolved s))) =
           Some (FileResult (fetchFile U (uri event))) \<and>
         fst (request U ''malloy/fetchBinaryFile'' event
            (run_events U evs (setupLanguageServer_resume Resolved s))) =
           Some (BinaryResult (fetchBinaryFile U (uri event))) \<and>
         fst (request U ''malloy/fetchCellData'' event
            (run_events U evs (setupLanguageServer_resume Resolved s))) =
           Some (CellDataResult (fetchCellData U (uri event)))"
proof -
  let ?s = "run_events U evs (setupLanguageServer_resume Resolved s)"
  have "handlers_registered (setupLanguageServer_resume Resolved s)"
    using assms by (rule handlers_registered_resume_setup)
  then have "handlers_registered ?s"
    by (rule handlers_registered_run_events)
  then have f: "registered ?s ''malloy/fetchFile'' = Some fetchFile_handler"
    and b: "registered ?s ''malloy/fetchBinaryFile'' = Some fetchBinaryFile_handler"
    and c: "registered ?s ''malloy/fetchCellData'' = Some fetchCellData_handler"
    by (simp_all add: handlers_registered_def)
  show ?thesis
    by (simp add: request_registered [OF f] request_registered [OF b] request_registered [OF c])
qed

theorem request_returns_fetch_result_witness:
  "fst (request example_utils ''malloy/fetchFile'' \<lparr>uri = ''file:///a.malloy''\<rparr>
     (run_events example_utils
        [Settled 0 Resolved, Request ''malloy/fetchCellData'' \<lparr>uri = ''cell:1''\<rparr>,
         ConfigurationChanged (changed [''malloy'']) example_workspace]
        example_activated)) = Some (FileResult ''text of file:///a.malloy'') \<and>
   fst (request example_utils ''malloy/fetchFile'' \<lparr>uri = ''file:///a.malloy''\<rparr>
     example_activated) = None"
proof -
  have c: "client example_activated \<noteq> None"
    by (simp add: example_activated_state)
  have p: "pending example_activated = [K_setupLanguageServer]"
    by (simp add: example_activated_state)
  have "client (example_activated\<lparr>pending := []\<rparr>) \<noteq> None"
    using c by simp
  from request_returns_fetch_result [OF this, of example_utils "\<lparr>uri = ''file:///a.malloy''\<rparr>"
      "[Request ''malloy/fetchCellData'' \<lparr>uri = ''cell:1''\<rparr>,
        ConfigurationChanged (changed [''malloy'']) example_workspace]"]
  have "fst (request example_utils ''malloy/fetchFile'' \<lparr>uri = ''file:///a.malloy''\<rparr>
     (run_events example_utils
        [Settled 0 Resolved, Request ''malloy/fetchCellData'' \<lparr>uri = ''cell:1''\<rparr>,
         ConfigurationChanged (changed [''malloy'']) example_workspace]
        example_activated)) = Some (FileResult ''text of file:///a.malloy'')"
    using p by (simp add: example_utils_def)
  moreover have "fst (request example_utils ''malloy/fetchFile'' \<lparr>uri = ''file:///a.malloy''\<rparr>
     example_activated) = None"
    by (simp add: request_def example_activated_state malloy_client_def new_LanguageClient_def)
  ultimately show ?thesis by simp
qed

section \<open>The listener on a change of the malloy section\<close>





section \<open>Cloud-shell environment propagation: what it writes, and when\<close>









section \<open>Handler registration waits for the client\<close>

lemma awaiting_onReady_0: "awaiting_onReady s = 0 \<longleftrightarrow> K_setupLanguageServer \<notin> set (pending s)"
  by (auto simp: awaiting_onReady_def filter_empty_conv)

lemma awaiting_onReady_listener [simp]: "awaiting_onReady (listener t e s) = awaiting_onReady s"
  by (simp add: awaiting_onReady_def listener_def Let_def)

lemma awaiting_onReady_fire [simp]: "awaiting_onReady (fire ts e s) = awaiting_onReady s"
  by (induction ts arbitrary: s) simp_all

lemma awaiting_onReady_resume [simp]: "awaiting_onReady (resume k out s) = awaiting_onReady s"
  by (simp add: awaiting_onReady_def)

lemma awaiting_onReady_remove:
  assumes "i < length (pending s)"
  shows "awaiting_onReady s =
     awaiting_onReady (s\<lparr>pending := take i (pending s) @ drop (Suc i) (pending s)\<rparr>) +
     (if pending s ! i = K_setupLanguageServer then 1 else 0)"
proof -
  have "pending s = take i (pending s) @ pending s ! i # drop (Suc i) (pending s)"
    using assms by (rule id_take_nth_drop)
  then have "filter (\<lambda>k. k = K_setupLanguageServer) (pending s) =
      filter (\<lambda>k. k = K_setupLanguageServer)
        (take i (pending s) @ pending s ! i # drop (Suc i) (pending s))"
    by simp
  then show ?thesis
    by (simp add: awaiting_onReady_def)
qed

lemma registered_client_cong: "client s' = client s \<Longrightarrow> registered s' m = registered s m"
  by (simp add: registered_def)

lemma waiting_unregistered_step:
  assumes "waiting_unregistered s"
  shows "waiting_unregistered (step U ev s)"
proof (cases ev)
  case (ConfigurationChanged e cfg)
  have "awaiting_onReady (s\<lparr>workspace := cfg\<rparr>) = awaiting_onReady s"
    by (simp add: awaiting_onReady_def)
  then show ?thesis
    using assms ConfigurationChanged by (simp add: waiting_unregistered_def registered_def)
next
  case (Settled i out)
  show ?thesis
  proof (cases "i < length (pending s)")
    case False
    then show ?thesis
      using assms Settled by simp
  next
    case True
    let ?s = "s\<lparr>pending := take i (pending s) @ drop (Suc i) (pending s)\<rparr>"
    have c: "client (resume (pending s ! i) out ?s) \<noteq> None"
      using assms by (intro client_resume) (simp add: waiting_unregistered_def)
    show ?thesis
    proof (cases "pending s ! i = K_setupLanguageServer")
      case True
      have "awaiting_onReady ?s = 0"
        using awaiting_onReady_remove [OF \<open>i < length (pending s)\<close>] assms True
        by (simp add: waiting_unregistered_def)
      then show ?thesis
        using c Settled \<open>i < length (pending s)\<close> by (simp add: waiting_unregistered_def)
    next
      case False
      have a: "awaiting_onReady ?s = awaiting_onReady s"
        using awaiting_onReady_remove [OF \<open>i < length (pending s)\<close>] False by simp
      have "client (resume (pending s ! i) out ?s) = client s"
        using False by (cases "pending s ! i") simp_all
      then have "registered (resume (pending s ! i) out ?s) m = registered s m" for m
        by (rule registered_client_cong)
      then show ?thesis
        using assms a c Settled \<open>i < length (pending s)\<close> by (simp add: waiting_unregistered_def)
    qed
  qed
next
  case (Request m event)
  then show ?thesis
    using assms
    by (simp add: waiting_unregistered_def registered_def awaiting_onReady_def)
next
  case Deactivate
  then show ?thesis
    using assms
    by (simp add: waiting_unregistered_def registered_def awaiting_onReady_def deactivate_def
        deactivate_worker_def Let_def split: option.splits)
qed

lemma waiting_unregistered_run_events:
  "waiting_unregistered s \<Longrightarrow> waiting_unregistered (run_events U evs s)"
  by (induction evs arbitrary: s) (simp_all add: waiting_unregistered_step)

lemma waiting_unregistered_setupLanguageServer:
  "K_setupLanguageServer \<notin> set (pending s) \<Longrightarrow> waiting_unregistered (setupLanguageServer context s)"
  by (auto simp: waiting_unregistered_def setupLanguageServer_result awaiting_onReady_def
      registered_def malloy_client_def new_LanguageClient_def filter_empty_conv)


text \<open>
  Claim C5. \<^verbatim>\<open>setupLanguageServer\<close> constructs a \<^verbatim>\<open>LanguageClient\<close> with id \<^verbatim>\<open>malloy\<close> whose
  document selector is the language \<^verbatim>\<open>malloy\<close> and whose synchronized configuration
  section is \<^verbatim>\<open>malloy\<close>, starts it, calls \<^verbatim>\<open>client.onReady()\<close> and is suspended with no
  handler registered. Whatever events follow, as long as it is suspended the client has
  no request handler; the three handlers \<^verbatim>\<open>malloy/fetchFile\<close>, \<^verbatim>\<open>malloy/fetchBinaryFile\<close> and
  \<^verbatim>\<open>malloy/fetchCellData\<close> are registered, in this order, by the step that resolves
  \<^verbatim>\<open>client.onReady()\<close>, and a rejection registers none. The function is taken to start
  with no earlier run of itself still suspended.
\<close>

theorem setupLanguageServer_registers_after_onReady:
  assumes "K_setupLanguageServer \<notin> set (pending s)"
    and "s1 = setupLanguageServer ctx s"
    and "s' = run_events U evs s1"
  shows "(\<exists>c. client s1 = Some c \<and> client_id c = ''malloy'' \<and>
              documentSelector (clientOptions c) = [''malloy''] \<and>
              configurationSection (clientOptions c) = ''malloy'' \<and>
              requestHandlers c = Map.empty) \<and>
         trace s1 = trace s @
           [CreateFileSystemWatcher ''**/.clientrc'',
            NewLanguageClient ''malloy'' ''Malloy Language Server''
              (serverOptions (malloy_client ctx)) (clientOptions (malloy_client ctx)),
            ClientStart, ClientOnReady] \<and>
         pending s1 = pending s @ [K_setupLanguageServer] \<and>
         (K_setupLanguageServer \<in> set (pending s') \<longrightarrow> (\<forall>m. registered s' m = None)) \<and>
         (i < length (pending s') \<and> pending s' ! i = K_setupLanguageServer \<longrightarrow>
            trace (step U (Settled i Resolved) s') =
              trace s' @ [OnRequest ''malloy/fetchFile'', OnRequest ''malloy/fetchBinaryFile'',
                          OnRequest ''malloy/fetchCellData''] \<and>
            handlers_registered (step U (Settled i Resolved) s') \<and>
            trace (step U (Settled i Rejected) s') = trace s' \<and>
            (\<forall>m. registered (step U (Settled i Rejected) s') m = None))"
proof -
  have construct: "\<exists>c. client s1 = Some c \<and> client_id c = ''malloy'' \<and>
              documentSelector (clientOptions c) = [''malloy''] \<and>
              configurationSection (clientOptions c) = ''malloy'' \<and>
              requestHandlers c = Map.empty"
    by (simp add: assms(2) setupLanguageServer_result malloy_client_def new_LanguageClient_def)
  have calls: "trace s1 = trace s @
           [CreateFileSystemWatcher ''**/.clientrc'',
            NewLanguageClient ''malloy'' ''Malloy Language Server''
              (serverOptions (malloy_client ctx)) (clientOptions (malloy_client ctx)),
            ClientStart, ClientOnReady]"
    and suspended: "pending s1 = pending s @ [K_setupLanguageServer]"
    by (simp_all add: assms(2) setupLanguageServer_result)
  have inv: "waiting_unregistered s'"
    unfolding assms(2,3)
    by (intro waiting_unregistered_run_events waiting_unregistered_setupLanguageServer assms(1))
  have waiting: "\<forall>m. registered s' m = None" if "K_setupLanguageServer \<in> set (pending s')"
    using inv that by (auto simp: waiting_unregistered_def awaiting_onReady_0)
  have settle: "trace (step U (Settled i Resolved) s') =
              trace s' @ [OnRequest ''malloy/fetchFile'', OnRequest ''malloy/fetchBinaryFile'',
                          OnRequest ''malloy/fetchCellData''] \<and>
            handlers_registered (step U (Settled i Resolved) s') \<and>
            trace (step U (Settled i Rejected) s') = trace s' \<and>
            (\<forall>m. registered (step U (Settled i Rejected) s') m = None)"
    if i: "i < length (pending s')" and k: "pending s' ! i = K_setupLanguageServer"
  proof -
    let ?s = "s'\<lparr>pending := take i (pending s') @ drop (Suc i) (pending s')\<rparr>"
    obtain c where c: "client ?s = Some c"
      using inv by (auto simp: waiting_unregistered_def)
    have "K_setupLanguageServer \<in> set (pending s')"
      using i k nth_mem by fastforce
    then have none: "registered s' m = None" for m
      using waiting by blast
    have res: "step U (Settled i Resolved) s' = setupLanguageServer_resume Resolved ?s"
      and rej: "step U (Settled i Rejected) s' = reject Rejection ?s"
      using i k by (simp_all add: setupLanguageServer_resume_Rejected)
    have "trace (step U (Settled i Resolved) s') =
        trace s' @ [OnRequest ''malloy/fetchFile'', OnRequest ''malloy/fetchBinaryFile'',
                    OnRequest ''malloy/fetchCellData'']"
      unfolding res setupLanguageServer_resume_Resolved [OF c] by simp
    moreover have "handlers_registered (step U (Settled i Resolved) s')"
      unfolding res using c by (intro handlers_registered_resume_setup) simp
    moreover have "trace (step U (Settled i Rejected) s') = trace s'"
      unfolding rej by simp
    moreover have "registered (step U (Settled i Rejected) s') m = None" for m
      unfolding rej using none [of m] by (simp add: registered_def)
    ultimately show ?thesis by blast
  qed
  from construct calls suspended waiting settle show ?thesis by blast
qed

theorem setupLanguageServer_registers_after_onReady_witness:
  "registered (run_events example_utils [Request ''malloy/fetchFile'' \<lparr>uri = ''file:///a''\<rparr>]
      (setupLanguageServer example_context example_initial)) ''malloy/fetchFile'' = None \<and>
   trace (step example_utils (Settled 0 Resolved)
      (run_events example_utils [Request ''malloy/fetchFile'' \<lparr>uri = ''file:///a''\<rparr>]
         (setupLanguageServer example_context example_initial))) =
     [CreateFileSystemWatcher ''**/.clientrc'',
      NewLanguageClient ''malloy'' ''Malloy Language Server''
        (serverOptions (malloy_client example_context))
        (clientOptions (malloy_client example_context)),
      ClientStart, ClientOnReady,
      OnRequest ''malloy/fetchFile'', OnRequest ''malloy/fetchBinaryFile'',
      OnRequest ''malloy/fetchCellData'']"
proof -
  let ?s1 = "setupLanguageServer example_context example_initial"
  let ?s' = "run_events example_utils [Request ''malloy/fetchFile'' \<lparr>uri = ''file:///a''\<rparr>] ?s1"
  have p0: "K_setupLanguageServer \<notin> set (pending example_initial)"
    by (simp add: example_initial_def initial_def)
  have p: "pending ?s' = [K_setupLanguageServer]"
    by (simp add: setupLanguageServer_result example_initial_def initial_def)
  have t: "trace ?s' = [CreateFileSystemWatcher ''**/.clientrc'',
      NewLanguageClient ''malloy'' ''Malloy Language Server''
        (serverOptions (malloy_client example_context))
        (clientOptions (malloy_client example_context)),
      ClientStart, ClientOnReady]"
    by (simp add: setupLanguageServer_result example_initial_def initial_def request_snd
        malloy_client_def new_LanguageClient_def)
  note th = setupLanguageServer_registers_after_onReady [OF p0 refl refl,
      where U = example_utils and ctx = example_context and i = 0
        and evs = "[Request ''malloy/fetchFile'' \<lparr>uri = ''file:///a''\<rparr>]"]
  have "K_setupLanguageServer \<in> set (pending ?s')"
    unfolding p by simp
  with th have 1: "registered ?s' ''malloy/fetchFile'' = None"
    by blast
  have "0 < length (pending ?s') \<and> pending ?s' ! 0 = K_setupLanguageServer"
    unfolding p by simp
  with th have "trace (step example_utils (Settled 0 Resolved) ?s') =
      trace ?s' @ [OnRequest ''malloy/fetchFile'', OnRequest ''malloy/fetchBinaryFile'',
                   OnRequest ''malloy/fetchCellData'']"
    by blast
  then have 2: "trace (step example_utils (Settled 0 Resolved) ?s') =
     [CreateFileSystemWatcher ''**/.clientrc'',
      NewLanguageClient ''malloy'' ''Malloy Language Server''
        (serverOptions (malloy_client example_context))
        (clientOptions (malloy_client example_context)),
      ClientStart, ClientOnReady,
      OnRequest ''malloy/fetchFile'', OnRequest ''malloy/fetchBinaryFile'',
      OnRequest ''malloy/fetchCellData'']"
    unfolding t by simp
  from 1 2 show ?thesis by blast
qed

section \<open>The order of the setup steps\<close>

text \<open>
  Claim C4, as stated: \<^verbatim>\<open>activate\<close> performs its setup strictly sequentially, each step
  completing before the next begins, and in particular \<^verbatim>\<open>setupLanguageServer\<close> completes
  before \<^verbatim>\<open>setupWorker\<close> starts. This fails. \<^verbatim>\<open>setupLanguageServer\<close> is an \<^verbatim>\<open>async\<close> function
  that \<^verbatim>\<open>activate\<close> calls without awaiting it: in the concrete run, when \<^verbatim>\<open>activate\<close> has
  returned (so \<^verbatim>\<open>setupWorker\<close> has run to its end) \<^verbatim>\<open>setupLanguageServer\<close> is still
  suspended on \<^verbatim>\<open>client.onReady()\<close>, and once that resolves, its calls of
  \<^verbatim>\<open>client.onRequest\<close> come after every call made by \<^verbatim>\<open>setupWorker\<close>.
\<close>

theorem activate_sequential_counterexample:
  "activate no_subscriptions example_context example_initial = Inr example_activated \<and>
   pending example_activated = [K_setupLanguageServer] \<and>
   registered example_activated ''malloy/fetchFile'' = None \<and>
   \<not> all_before setupLanguageServer_action setupWorker_action
       (trace (step example_utils (Settled 0 Resolved) example_activated))"
proof -
  have c: "client (example_activated\<lparr>pending := []\<rparr>) = Some (malloy_client example_context)"
    by (simp add: example_activated_state)
  have p: "pending example_activated = [K_setupLanguageServer]"
    by (simp add: example_activated_state)
  have w: "trace example_activated =
      take 12 (trace example_activated) @
      [NewWorkerConnection (WorkerConnection 0 example_context),
       SetWorker (WorkerConnection 0 example_context), GetConfiguration ''malloy'',
       WorkerSend (WorkerConnection 0 example_context)
         (ConfigMessage [(''rowLimit'', JNumber 50)])]"
    by (simp add: example_activated_state)
  have "step example_utils (Settled 0 Resolved) example_activated =
      setupLanguageServer_resume Resolved (example_activated\<lparr>pending := []\<rparr>)"
    using p by simp
  then have "trace (step example_utils (Settled 0 Resolved) example_activated) =
      trace example_activated @
        [OnRequest ''malloy/fetchFile'', OnRequest ''malloy/fetchBinaryFile'',
         OnRequest ''malloy/fetchCellData'']"
    by (simp add: setupLanguageServer_resume_Resolved [OF c])
  then have t: "trace (step example_utils (Settled 0 Resolved) example_activated) =
      take 12 (trace example_activated) @
      [NewWorkerConnection (WorkerConnection 0 example_context),
       SetWorker (WorkerConnection 0 example_context), GetConfiguration ''malloy'',
       WorkerSend (WorkerConnection 0 example_context)
         (ConfigMessage [(''rowLimit'', JNumber 50)]),
       OnRequest ''malloy/fetchFile'', OnRequest ''malloy/fetchBinaryFile'',
       OnRequest ''malloy/fetchCellData'']"
    using w by simp
  have late: "\<not> all_before P Q (xs @ ys)" if "\<not> all_before P Q ys"
    for P Q :: "action \<Rightarrow> bool" and xs ys
    using that by (induction xs) simp_all
  have "\<not> all_before setupLanguageServer_action setupWorker_action
       (trace (step example_utils (Settled 0 Resolved) example_activated))"
    unfolding t by (rule late) simp
  moreover have "registered example_activated ''malloy/fetchFile'' = None"
    by (simp add: example_activated_state registered_def malloy_client_def
        new_LanguageClient_def)
  ultimately show ?thesis
    using example_activated_eq p by simp
qed

text \<open>
  Claim C4, amended: \<^verbatim>\<open>activate\<close> makes its calls in program order, each finished before
  the next: subscription setup, tree-view construction, home-URI initialization,
  tree-provider and command registration, cloud-shell environment propagation,
  configuration-listener registration, then the part of \<^verbatim>\<open>setupLanguageServer\<close> up to its
  \<^verbatim>\<open>await\<close> (file watcher, client construction, start, \<^verbatim>\<open>onReady\<close>), then all of
  \<^verbatim>\<open>setupWorker\<close>. So everything \<^verbatim>\<open>setupLanguageServer\<close> does before it is suspended
  precedes \<^verbatim>\<open>setupWorker\<close>; it is not awaited, and when \<^verbatim>\<open>activate\<close> returns it is still
  suspended with no request handler registered. The three handlers are registered later,
  by the step that resolves \<^verbatim>\<open>client.onReady()\<close>.
\<close>

theorem activate_synchronous_order:
  "\<exists>s'. activate S context s = Inr s' \<and>
     trace s' = trace s @
       [NewVSCodeURLReader, SetupSubscriptions context, NewConnectionsProvider context, SetHomeUri,
        RegisterTreeDataProvider ''malloyConnections'' (ConnectionsProvider context),
        RegisterCommand ''malloy.editConnections'' editConnectionsCommand,
        GetConfiguration ''cloudcode'',
        OnDidChangeConfiguration (ConnectionsProvider context),
        CreateFileSystemWatcher ''**/.clientrc'',
        NewLanguageClient ''malloy'' ''Malloy Language Server''
          (serverOptions (malloy_client context)) (clientOptions (malloy_client context)),
        ClientStart, ClientOnReady,
        NewWorkerConnection (WorkerConnection (length (outboxes s)) context),
        SetWorker (WorkerConnection (length (outboxes s)) context),
        GetConfiguration ''malloy'',
        WorkerSend (WorkerConnection (length (outboxes s)) context)
          (ConfigMessage (workspace s ''malloy''))] \<and>
     all_before setupLanguageServer_action setupWorker_action
       (drop (length (trace s)) (trace s')) \<and>
     pending s' = pending s @ [K_setupLanguageServer] \<and>
     (\<forall>m. registered s' m = None) \<and>
     trace (step U (Settled (length (pending s)) Resolved) s') =
       trace s' @ [OnRequest ''malloy/fetchFile'', OnRequest ''malloy/fetchBinaryFile'',
                   OnRequest ''malloy/fetchCellData'']"
proof -
  obtain s' where s': "activate S context s = Inr s'"
    using activate_total by blast
  note f = activate_fields [OF s']
  note t = activate_trace [OF s']
  have order: "all_before setupLanguageServer_action setupWorker_action
       (drop (length (trace s)) (trace s'))"
    unfolding t by simp
  have unregistered: "registered s' m = None" for m
    by (simp add: registered_def f(1) malloy_client_def new_LanguageClient_def)
  let ?s = "s'\<lparr>pending := take (length (pending s)) (pending s') @
                            drop (Suc (length (pending s))) (pending s')\<rparr>"
  have c: "client ?s = Some (malloy_client context)"
    by (simp add: f(1))
  have "step U (Settled (length (pending s)) Resolved) s' = setupLanguageServer_resume Resolved ?s"
    by (simp add: f(7))
  then have later: "trace (step U (Settled (length (pending s)) Resolved) s') =
       trace s' @ [OnRequest ''malloy/fetchFile'', OnRequest ''malloy/fetchBinaryFile'',
                   OnRequest ''malloy/fetchCellData'']"
    by (simp add: setupLanguageServer_resume_Resolved [OF c])
  from s' t order f(7) unregistered later show ?thesis
    by blast
qed

end
